theory Spec2Isabelle
  imports Main
begin

section \<open>Values sent by clients\<close>

text \<open>
  A parameter of a query string or the argument of a socket message, where the program
  expects a string: absent (JavaScript \<open>undefined\<close>), \<open>null\<close>, or a string. The
  source tests such values with \<open>!x\<close>: \<open>undefined\<close>, \<open>null\<close> and the empty string
  are falsy. The fields of a request body are JSON values and come further down.
\<close>

datatype strfield = Absent | Null | Str string


section \<open>sockets/index.js: the table of active connections\<close>

text \<open>
  \<open>activeConnections\<close> is a JavaScript \<open>Map\<close> from receiver id to a \<open>Set\<close> of socket
  ids. Both keep insertion order, so the map is an association list and a set is a list;
  the operations below are the ones the source calls (\<open>has\<close>, \<open>get\<close>, \<open>set\<close>,
  \<open>add\<close>, \<open>delete\<close>, \<open>size\<close>).
\<close>

type_synonym socket_id = string
type_synonym registry = "(string \<times> socket_id list) list"

definition map_has :: "registry \<Rightarrow> string \<Rightarrow> bool" where
  "map_has m k = (map_of m k \<noteq> None)"

definition map_get :: "registry \<Rightarrow> string \<Rightarrow> socket_id list option" where
  "map_get m k = map_of m k"

fun map_set :: "registry \<Rightarrow> string \<Rightarrow> socket_id list \<Rightarrow> registry" where
  "map_set [] k v = [(k, v)]"
| "map_set ((k', v') # m) k v = (if k' = k then (k, v) # m else (k', v') # map_set m k v)"

definition set_add :: "socket_id \<Rightarrow> socket_id list \<Rightarrow> socket_id list" where
  "set_add s ss = (if s \<in> set ss then ss else ss @ [s])"

definition set_delete :: "socket_id \<Rightarrow> socket_id list \<Rightarrow> socket_id list" where
  "set_delete s ss = filter (\<lambda>x. x \<noteq> s) ss"

text \<open>A map has one entry per key; every table the handlers build keeps that.\<close>

definition wf_registry :: "registry \<Rightarrow> bool" where
  "wf_registry m = distinct (map fst m)"

datatype reply = ErrorMsg string | Subscribed string string

text \<open>
  \<open>socket.on("subscribe", ...)\<close>: a falsy receiver id is answered with an \<open>error\<close>
  message and changes nothing; otherwise the entry is created when missing and the socket
  id is added to its set. Joining and leaving the room of the receiver happens inside
  socket.io and is not part of the table.
\<close>

definition subscribe :: "socket_id \<Rightarrow> strfield \<Rightarrow> registry \<Rightarrow> registry \<times> reply option" where
  "subscribe sid receiverId ac =
     (case receiverId of
        Str r \<Rightarrow>
          if r = [] then (ac, Some (ErrorMsg ''receiverId is required''))
          else
            let ac1 = (if \<not> map_has ac r then map_set ac r [] else ac);
                ac2 = (case map_get ac1 r of
                         Some ss \<Rightarrow> map_set ac1 r (set_add sid ss)
                       | None \<Rightarrow> ac1)
            in (ac2, Some (Subscribed r ''Successfully subscribed''))
      | _ \<Rightarrow> (ac, Some (ErrorMsg ''receiverId is required'')))"

text \<open>
  \<open>socket.on("unsubscribe", ...)\<close>: the socket id is deleted from the receiver's set
  when the receiver has an entry. Nothing is sent back and the entry itself stays.
\<close>

definition unsubscribe :: "socket_id \<Rightarrow> strfield \<Rightarrow> registry \<Rightarrow> registry \<times> reply option" where
  "unsubscribe sid receiverId ac =
     (case receiverId of
        Str r \<Rightarrow>
          (if map_has ac r
           then (case map_get ac r of
                   Some ss \<Rightarrow> (map_set ac r (set_delete sid ss), None)
                 | None \<Rightarrow> (ac, None))
           else (ac, None))
      | _ \<Rightarrow> (ac, None))"

text \<open>
  \<open>socket.on("disconnect", ...)\<close>: the loop visits every entry in order, deletes the
  socket id from its set and deletes the entry when the set has become empty.
\<close>

fun disconnect :: "socket_id \<Rightarrow> registry \<Rightarrow> registry" where
  "disconnect sid [] = []"
| "disconnect sid ((receiverId, sockets) # rest) =
     (let sockets' = set_delete sid sockets
      in if length sockets' = 0 then disconnect sid rest
         else (receiverId, sockets') # disconnect sid rest)"

definition isReceiverOnline :: "registry \<Rightarrow> string \<Rightarrow> bool" where
  "isReceiverOnline ac receiverId =
     (map_has ac receiverId \<and>
      (case map_get ac receiverId of Some ss \<Rightarrow> length ss > 0 | None \<Rightarrow> False))"

text \<open>The events a connected socket can raise, and a run of them from the empty table.\<close>

datatype sock_event =
    Subscribe socket_id strfield
  | Unsubscribe socket_id strfield
  | Disconnect socket_id

fun handle :: "registry \<Rightarrow> sock_event \<Rightarrow> registry" where
  "handle ac (Subscribe sid r) = fst (subscribe sid r ac)"
| "handle ac (Unsubscribe sid r) = fst (unsubscribe sid r ac)"
| "handle ac (Disconnect sid) = disconnect sid ac"

definition run :: "sock_event list \<Rightarrow> registry" where
  "run evs = foldl handle [] evs"

text \<open>The invariant the specification states: no entry holds an empty set.\<close>

definition no_empty_sets :: "registry \<Rightarrow> bool" where
  "no_empty_sets ac = list_all (\<lambda>(r, ss). ss \<noteq> []) ac"

section \<open>models/Notification.js: the stored document\<close>

text \<open>
  A JSON value, as a request body carries it after parsing. A number is kept as
  JavaScript prints it (\<open>String(x)\<close>, so zero is \<open>0\<close>): the program tests a number
  for truth and turns it into a string, and does nothing else with it. The keys of an
  object are distinct.
\<close>

datatype json =
    JNull
  | JBool bool
  | JNum string
  | JStr string
  | JArr "json list"
  | JObj "(string \<times> json) list"

fun json_truthy :: "json \<Rightarrow> bool" where
  "json_truthy JNull = False"
| "json_truthy (JBool b) = b"
| "json_truthy (JNum n) = (n \<noteq> ''0'')"
| "json_truthy (JStr s) = (s \<noteq> [])"
| "json_truthy (JArr xs) = True"
| "json_truthy (JObj kvs) = True"

text \<open>A field of a request body: absent (\<open>undefined\<close>) or a JSON value.\<close>

fun js_truthy :: "json option \<Rightarrow> bool" where
  "js_truthy None = False"
| "js_truthy (Some v) = json_truthy v"

text \<open>
  The schema does not set \<open>minimize: false\<close>, so what is saved and what \<open>toJSON\<close>
  prints is the document with its empty objects removed: a key whose value is an object
  without keys (after the same removal inside it) is dropped, and an object left without
  keys becomes \<open>undefined\<close> (\<open>None\<close>) unless it is an element of an array. Arrays, and
  \<open>null\<close>, are kept.
\<close>

fun minimize :: "bool \<Rightarrow> json \<Rightarrow> json option"
  and minimize_fields :: "(string \<times> json) list \<Rightarrow> (string \<times> json) list"
  and minimize_items :: "json list \<Rightarrow> json list"
where
  "minimize isArrayChild (JObj kvs) =
     (let ret = minimize_fields kvs
      in if ret = [] \<and> \<not> isArrayChild then None else Some (JObj ret))"
| "minimize isArrayChild (JArr xs) = Some (JArr (minimize_items xs))"
| "minimize isArrayChild JNull = Some JNull"
| "minimize isArrayChild (JBool b) = Some (JBool b)"
| "minimize isArrayChild (JNum n) = Some (JNum n)"
| "minimize isArrayChild (JStr s) = Some (JStr s)"
| "minimize_fields [] = []"
| "minimize_fields ((k, v) # kvs) =
     (case minimize False v of
        None \<Rightarrow> minimize_fields kvs
      | Some v' \<Rightarrow> (k, v') # minimize_fields kvs)"
| "minimize_items [] = []"
| "minimize_items (x # xs) =
     (case minimize True x of
        None \<Rightarrow> JObj [] # minimize_items xs
      | Some x' \<Rightarrow> x' # minimize_items xs)"

text \<open>
  A document as it is stored and as a response prints it. \<open>n_id\<close> is the \<open>_id\<close> the
  driver assigns; \<open>n_payload\<close> is \<open>None\<close> when the document has no \<open>payload\<close> key;
  \<open>appId\<close>, \<open>senderId\<close> and \<open>channel\<close> are nullable strings (\<open>None\<close> is \<open>null\<close>);
  the two timestamps come from the schema option \<open>timestamps: true\<close>.
\<close>

record notification =
  n_id :: nat
  n_receiverId :: string
  n_type :: string
  n_payload :: "json option"
  n_read :: bool
  n_appId :: "string option"
  n_senderId :: "string option"
  n_channel :: "string option"
  n_createdAt :: nat
  n_updatedAt :: nat

text \<open>
  Errors. \<open>BadRequest\<close> and \<open>NotFound\<close> are what the routes throw through
  \<open>ApiError.badRequest\<close> and \<open>ApiError.notFound\<close>; \<open>SchemaValidation\<close> is what the
  document model throws when a path cannot be cast to its type or a path marked
  \<open>required\<close> is missing, \<open>null\<close> or an empty string.
\<close>

datatype api_error = BadRequest string | NotFound string | SchemaValidation string


text \<open>
  The collection is the list of its documents in insertion order. The operations on it
  (\<open>create\<close>, \<open>find\<close>, \<open>countDocuments\<close>, \<open>findByIdAndUpdate\<close>, \<open>updateMany\<close>)
  belong to the database library; they are written here as the library documents them,
  for the schema of models/Notification.js. A failing database is not modelled.
\<close>

text \<open>The object handed to \<open>Notification.create\<close>, before the schema is applied.\<close>

record doc_input =
  d_receiverId :: "json option"
  d_type :: "json option"
  d_payload :: "json option"
  d_appId :: "json option"
  d_senderId :: "json option"
  d_channel :: "json option"

text \<open>
  The cast of a value to the schema type \<open>String\<close>: \<open>null\<close> stays \<open>null\<close>, a string
  is itself, an object with a non-empty string under \<open>_id\<close> is that string, a number or
  a boolean is printed, and an array or any other object is a cast error.
\<close>

datatype cast_result = CastError | CastNull | CastTo string

fun castString :: "json \<Rightarrow> cast_result" where
  "castString JNull = CastNull"
| "castString (JStr s) = CastTo s"
| "castString (JNum n) = CastTo n"
| "castString (JBool b) = CastTo (if b then ''true'' else ''false'')"
| "castString (JArr xs) = CastError"
| "castString (JObj kvs) =
     (case map_of kvs ''_id'' of
        Some (JStr i) \<Rightarrow> if i = [] then CastError else CastTo i
      | _ \<Rightarrow> CastError)"

text \<open>
  A path of type \<open>String\<close> after cast and validation; \<open>None\<close> is a validation error
  (a failed cast, or a required path that is missing, \<open>null\<close> or empty). The default of
  a path applies when the path is \<open>undefined\<close>; an explicit \<open>null\<close> is kept.
\<close>

definition required_string :: "json option \<Rightarrow> string option" where
  "required_string x =
     (case x of
        None \<Rightarrow> None
      | Some v \<Rightarrow>
          (case castString v of
             CastTo s \<Rightarrow> if s = [] then None else Some s
           | _ \<Rightarrow> None))"

definition optional_string :: "string option \<Rightarrow> json option \<Rightarrow> string option option" where
  "optional_string dflt x =
     (case x of
        None \<Rightarrow> Some dflt
      | Some v \<Rightarrow>
          (case castString v of
             CastError \<Rightarrow> None
           | CastNull \<Rightarrow> Some None
           | CastTo s \<Rightarrow> Some (Some s)))"

text \<open>
  \<open>Notification.create\<close>: casts and validates the paths, applies the defaults of the
  schema (\<open>payload: {}\<close>, \<open>read: false\<close>, \<open>appId: null\<close>, \<open>senderId: null\<close>,
  \<open>channel: "default"\<close>), stamps both timestamps and appends the minimized document to
  the collection; a validation error stores nothing. The identifier and the current time
  are supplied by the environment. The result is the document as stored and printed, the
  payload of the document in memory (which is not minimized), and the new collection.
\<close>

definition Notification_create ::
  "nat \<Rightarrow> nat \<Rightarrow> doc_input \<Rightarrow> notification list
     \<Rightarrow> api_error + notification \<times> json \<times> notification list"
where
  "Notification_create now oid d coll =
     (case required_string (d_receiverId d) of
        None \<Rightarrow> Inl (SchemaValidation ''Notification validation failed'')
      | Some r \<Rightarrow>
     (case required_string (d_type d) of
        None \<Rightarrow> Inl (SchemaValidation ''Notification validation failed'')
      | Some t \<Rightarrow>
     (case optional_string None (d_appId d) of
        None \<Rightarrow> Inl (SchemaValidation ''Notification validation failed'')
      | Some a \<Rightarrow>
     (case optional_string None (d_senderId d) of
        None \<Rightarrow> Inl (SchemaValidation ''Notification validation failed'')
      | Some s \<Rightarrow>
     (case optional_string (Some ''default'') (d_channel d) of
        None \<Rightarrow> Inl (SchemaValidation ''Notification validation failed'')
      | Some c \<Rightarrow>
          let payload = (case d_payload d of None \<Rightarrow> JObj [] | Some p \<Rightarrow> p);
              doc = \<lparr> n_id = oid, n_receiverId = r, n_type = t,
                      n_payload = minimize False payload,
                      n_read = False, n_appId = a, n_senderId = s, n_channel = c,
                      n_createdAt = now, n_updatedAt = now \<rparr>
          in Inr (doc, payload, coll @ [doc]))))))"

text \<open>
  A query filter as the routes build it: receiver and application always, the other three
  conditions only when the route adds them.
\<close>

record query_filter =
  f_receiverId :: string
  f_appId :: string
  f_read :: "bool option"
  f_type :: "string option"
  f_channel :: "string option"

definition matches :: "query_filter \<Rightarrow> notification \<Rightarrow> bool" where
  "matches f n =
     (n_receiverId n = f_receiverId f \<and>
      n_appId n = Some (f_appId f) \<and>
      (case f_read f of None \<Rightarrow> True | Some b \<Rightarrow> n_read n = b) \<and>
      (case f_type f of None \<Rightarrow> True | Some t \<Rightarrow> n_type n = t) \<and>
      (case f_channel f of None \<Rightarrow> True | Some c \<Rightarrow> n_channel n = Some c))"

definition countDocuments :: "query_filter \<Rightarrow> notification list \<Rightarrow> nat" where
  "countDocuments f coll = length (filter (matches f) coll)"

text \<open>
  \<open>find(query).sort({createdAt: -1}).skip(s).limit(l)\<close>. The sort is stable (the
  database leaves the order of equal timestamps open); a limit of 0 means no limit.
\<close>

definition find_sorted :: "query_filter \<Rightarrow> nat \<Rightarrow> nat \<Rightarrow> notification list \<Rightarrow> notification list" where
  "find_sorted f s l coll =
     (let hits = sort_key (\<lambda>n. - int (n_createdAt n)) (filter (matches f) coll);
          rest = drop s hits
      in if l = 0 then rest else take l rest)"

text \<open>
  \<open>findByIdAndUpdate(id, {read: true}, {new: true})\<close>: the first document with that
  identifier gets \<open>read = true\<close> and a fresh \<open>updatedAt\<close>, and is returned as updated;
  \<open>null\<close> when there is none.
\<close>

definition mark :: "nat \<Rightarrow> notification \<Rightarrow> notification" where
  "mark now n = n\<lparr> n_read := True, n_updatedAt := now \<rparr>"

fun findByIdAndUpdate ::
  "nat \<Rightarrow> nat \<Rightarrow> notification list \<Rightarrow> notification option \<times> notification list"
where
  "findByIdAndUpdate now i [] = (None, [])"
| "findByIdAndUpdate now i (n # ns) =
     (if n_id n = i then (Some (mark now n), mark now n # ns)
      else (case findByIdAndUpdate now i ns of (r, ns') \<Rightarrow> (r, n # ns')))"

text \<open>
  \<open>updateMany(query, {read: true})\<close>: every matching document is updated in place;
  \<open>modifiedCount\<close> counts the documents the update changed.
\<close>

definition updateMany :: "nat \<Rightarrow> query_filter \<Rightarrow> notification list \<Rightarrow> nat \<times> notification list" where
  "updateMany now f coll =
     (length (filter (\<lambda>n. matches f n \<and> mark now n \<noteq> n) coll),
      map (\<lambda>n. if matches f n then mark now n else n) coll)"

section \<open>The process state and the push\<close>

record app_state =
  db :: "notification list"
  io :: bool
  activeConnections :: registry

record push_event =
  pe_id :: nat
  pe_type :: string
  pe_payload :: json
  pe_channel :: "string option"
  pe_senderId :: "string option"
  pe_createdAt :: nat

text \<open>
  What a request handler does to the outside, in the order it does it. An emit names the
  room by the value the caller passed.
\<close>

datatype effect =
    Persist notification
  | Emit json push_event
  | LogError string
  | Respond nat

text \<open>
  \<open>sendNotification\<close>: \<open>false\<close> when \<open>io\<close> has not been set by \<open>initializeSocket\<close>;
  otherwise the event is emitted to the room named after the receiver and the result is
  \<open>true\<close>. The table of active connections is not read.
\<close>

definition sendNotification :: "app_state \<Rightarrow> json \<Rightarrow> push_event \<Rightarrow> bool \<times> effect list" where
  "sendNotification st receiverId ev =
     (if \<not> io st then (False, [LogError ''Socket.IO not initialized''])
      else (True, [Emit receiverId ev]))"

section \<open>routes/notifications.js\<close>

record body =
  b_receiverId :: "json option"
  b_type :: "json option"
  b_payload :: "json option"
  b_appId :: "json option"
  b_senderId :: "json option"
  b_channel :: "json option"

text \<open>\<open>payload || {}\<close>.\<close>

fun or_empty_object :: "json option \<Rightarrow> json" where
  "or_empty_object None = JObj []"
| "or_empty_object (Some v) = (if json_truthy v then v else JObj [])"

record create_response =
  cr_success :: bool
  cr_notification :: notification
  cr_delivered :: bool

text \<open>
  \<open>POST /\<close>. An error leaves the state as it is and reaches the error handler; success
  answers 201 with the document as \<open>toJSON\<close> prints it. The push is addressed with the
  \<open>receiverId\<close> of the body and carries fields of the document in memory. The third
  component lists the effects in the order of the statements.
\<close>

definition post_route ::
  "nat \<Rightarrow> nat \<Rightarrow> body \<Rightarrow> app_state \<Rightarrow> (api_error + nat \<times> create_response) \<times> app_state \<times> effect list"
where
  "post_route now oid b st =
     (if \<not> js_truthy (b_receiverId b) \<or> \<not> js_truthy (b_type b)
      then (Inl (BadRequest ''Missing required fields: receiverId, type''), st, [])
      else
        (case Notification_create now oid
                \<lparr> d_receiverId = b_receiverId b, d_type = b_type b,
                  d_payload = Some (or_empty_object (b_payload b)),
                  d_appId = b_appId b, d_senderId = b_senderId b,
                  d_channel = b_channel b \<rparr> (db st) of
           Inl e \<Rightarrow> (Inl e, st, [])
         | Inr (notification, payload, coll) \<Rightarrow>
             let st1 = st\<lparr> db := coll \<rparr>;
                 (delivered, sent) =
                   sendNotification st1
                     (case b_receiverId b of Some r \<Rightarrow> r | None \<Rightarrow> JNull)
                     \<lparr> pe_id = n_id notification, pe_type = n_type notification,
                       pe_payload = payload,
                       pe_channel = n_channel notification,
                       pe_senderId = n_senderId notification,
                       pe_createdAt = n_createdAt notification \<rparr>
             in (Inr (201, \<lparr> cr_success = True, cr_notification = notification,
                             cr_delivered = delivered \<rparr>),
                 st1, Persist notification # sent @ [Respond 201])))"

record list_query =
  q_unreadOnly :: strfield
  q_type :: strfield
  q_channel :: strfield
  q_appId :: strfield
  q_limit :: "nat option"
  q_skip :: "nat option"

record list_response =
  lr_notifications :: "notification list"
  lr_total :: nat
  lr_unreadCount :: nat
  lr_isOnline :: bool

fun add_type :: "strfield \<Rightarrow> query_filter \<Rightarrow> query_filter" where
  "add_type (Str t) f = (if t = [] then f else f\<lparr> f_type := Some t \<rparr>)"
| "add_type _ f = f"

fun add_channel :: "strfield \<Rightarrow> query_filter \<Rightarrow> query_filter" where
  "add_channel (Str c) f = (if c = [] then f else f\<lparr> f_channel := Some c \<rparr>)"
| "add_channel _ f = f"

text \<open>
  \<open>GET /:receiverId\<close>. \<open>limit\<close> and \<open>skip\<close> are the values \<open>parseInt\<close> yields
  (50 and 0 when the parameter is absent); the two counts use a filter of their own. The
  three queries of the \<open>Promise.all\<close> read the same collection.
\<close>

definition get_route :: "string \<Rightarrow> list_query \<Rightarrow> app_state \<Rightarrow> api_error + nat \<times> list_response" where
  "get_route receiverId q st =
     (case q_appId q of
        Str appId \<Rightarrow>
          if appId = [] then Inl (BadRequest ''Missing required query parameter: appId'')
          else
            let limit = (case q_limit q of None \<Rightarrow> 50 | Some l \<Rightarrow> l);
                skip = (case q_skip q of None \<Rightarrow> 0 | Some s \<Rightarrow> s);
                base = \<lparr> f_receiverId = receiverId, f_appId = appId, f_read = None,
                         f_type = None, f_channel = None \<rparr>;
                query0 = (if q_unreadOnly q = Str ''true'' then base\<lparr> f_read := Some False \<rparr>
                          else base);
                query = add_channel (q_channel q) (add_type (q_type q) query0)
            in Inr (200,
                 \<lparr> lr_notifications = find_sorted query skip limit (db st),
                   lr_total = countDocuments base (db st),
                   lr_unreadCount = countDocuments (base\<lparr> f_read := Some False \<rparr>) (db st),
                   lr_isOnline = isReceiverOnline (activeConnections st) receiverId \<rparr>)
      | _ \<Rightarrow> Inl (BadRequest ''Missing required query parameter: appId''))"

record read_response =
  rr_success :: bool
  rr_notification :: notification

text \<open>\<open>PATCH /:id/read\<close>.\<close>

definition patch_read_route ::
  "nat \<Rightarrow> nat \<Rightarrow> app_state \<Rightarrow> (api_error + nat \<times> read_response) \<times> app_state"
where
  "patch_read_route now i st =
     (case findByIdAndUpdate now i (db st) of
        (None, coll) \<Rightarrow> (Inl (NotFound ''Notification not found''), st)
      | (Some notification, coll) \<Rightarrow>
          (Inr (200, \<lparr> rr_success = True, rr_notification = notification \<rparr>),
           st\<lparr> db := coll \<rparr>))"

record read_all_query =
  ra_type :: strfield
  ra_channel :: strfield
  ra_appId :: strfield

record read_all_response =
  ra_success :: bool
  ra_modifiedCount :: nat

text \<open>\<open>PATCH /:receiverId/read-all\<close>.\<close>

definition patch_read_all_route ::
  "nat \<Rightarrow> string \<Rightarrow> read_all_query \<Rightarrow> app_state \<Rightarrow> (api_error + nat \<times> read_all_response) \<times> app_state"
where
  "patch_read_all_route now receiverId q st =
     (case ra_appId q of
        Str appId \<Rightarrow>
          if appId = [] then (Inl (BadRequest ''Missing required query parameter: appId''), st)
          else
            let base = \<lparr> f_receiverId = receiverId, f_appId = appId, f_read = Some False,
                         f_type = None, f_channel = None \<rparr>;
                query = add_channel (ra_channel q) (add_type (ra_type q) base);
                (modified, coll) = updateMany now query (db st)
            in (Inr (200, \<lparr> ra_success = True, ra_modifiedCount = modified \<rparr>),
                st\<lparr> db := coll \<rparr>)
      | _ \<Rightarrow> (Inl (BadRequest ''Missing required query parameter: appId''), st))"

text \<open>Everything that can happen to the process, and a run of such operations.\<close>

datatype api_op =
    OpCreate nat nat body
  | OpList string list_query
  | OpMarkRead nat nat
  | OpMarkAllRead nat string read_all_query
  | OpSocket sock_event

fun apply_op :: "app_state \<Rightarrow> api_op \<Rightarrow> app_state" where
  "apply_op st (OpCreate now oid b) = fst (snd (post_route now oid b st))"
| "apply_op st (OpList r q) = st"
| "apply_op st (OpMarkRead now i) = snd (patch_read_route now i st)"
| "apply_op st (OpMarkAllRead now r q) = snd (patch_read_all_route now r q st)"
| "apply_op st (OpSocket ev) = st\<lparr> activeConnections := handle (activeConnections st) ev \<rparr>"

definition exec_ops :: "app_state \<Rightarrow> api_op list \<Rightarrow> app_state" where
  "exec_ops st ops = foldl apply_op st ops"

section \<open>Notions used to state the properties\<close>

text \<open>
  The scope of a bulk mark-read in the specification's words: the documents of the
  receiver and application that are unread and have the type and the channel asked for,
  where one is supplied.
\<close>

definition in_scope :: "string \<Rightarrow> string \<Rightarrow> read_all_query \<Rightarrow> notification \<Rightarrow> bool" where
  "in_scope r a q n =
     (n_receiverId n = r \<and> n_appId n = Some a \<and> n_read n = False \<and>
      (case ra_type q of Str t \<Rightarrow> t = [] \<or> n_type n = t | _ \<Rightarrow> True) \<and>
      (case ra_channel q of Str c \<Rightarrow> c = [] \<or> n_channel n = Some c | _ \<Rightarrow> True))"

text \<open>
  A document and a later version of it: everything but \<open>updatedAt\<close> and \<open>read\<close> is
  the same, and \<open>read\<close> has not gone back to false.
\<close>

definition later_version :: "notification \<Rightarrow> notification \<Rightarrow> bool" where
  "later_version n n' =
     (n'\<lparr> n_read := n_read n, n_updatedAt := n_updatedAt n \<rparr> = n \<and> (n_read n \<longrightarrow> n_read n'))"

text \<open>
  A collection and a later state of it: no document has gone, and the document at each
  position is a later version of the one that was there.
\<close>

definition evolves :: "notification list \<Rightarrow> notification list \<Rightarrow> bool" where
  "evolves c c' = (length c \<le> length c' \<and> list_all2 later_version c (take (length c) c'))"



definition castable :: "json option \<Rightarrow> bool" where
  "castable x = (case x of None \<Rightarrow> True | Some v \<Rightarrow> castString v \<noteq> CastError)"

text \<open>
  What the collection holds under a path with a default, for a field of the body that can
  be cast.
\<close>

definition stored_string :: "string option \<Rightarrow> json option \<Rightarrow> string option" where
  "stored_string dflt x =
     (case x of
        None \<Rightarrow> dflt
      | Some v \<Rightarrow> (case castString v of CastTo s \<Rightarrow> Some s | _ \<Rightarrow> None))"

text \<open>
  A required field as the schema accepts it (it casts to a non-empty string), and a
  request body all of whose string paths the schema accepts.
\<close>

definition required_ok :: "json option \<Rightarrow> bool" where
  "required_ok x =
     (case x of
        None \<Rightarrow> False
      | Some v \<Rightarrow> (case castString v of CastTo s \<Rightarrow> s \<noteq> [] | _ \<Rightarrow> False))"

definition schema_accepts :: "body \<Rightarrow> bool" where
  "schema_accepts b =
     (required_ok (b_receiverId b) \<and> required_ok (b_type b) \<and>
      castable (b_appId b) \<and> castable (b_senderId b) \<and> castable (b_channel b))"

text \<open>
  The filters of a listing in the specification's words: unread documents only when
  \<open>unreadOnly\<close> is the string \<open>true\<close>, and the type and the channel asked for,
  where one is supplied.
\<close>

definition passes_filters :: "list_query \<Rightarrow> notification \<Rightarrow> bool" where
  "passes_filters q n =
     ((q_unreadOnly q = Str ''true'' \<longrightarrow> n_read n = False) \<and>
      (case q_type q of Str t \<Rightarrow> t = [] \<or> n_type n = t | _ \<Rightarrow> True) \<and>
      (case q_channel q of Str c \<Rightarrow> c = [] \<or> n_channel n = Some c | _ \<Rightarrow> True))"

section \<open>Sample data\<close>

text \<open>
  Three documents of receiver \<open>u1\<close> (an unread chat message and a read order of
  application \<open>app1\<close>, and a chat message stored without an application), a state
  holding them with one live session of \<open>u1\<close>, an empty state, and a creation request.
\<close>

definition sample_chat :: notification where
  "sample_chat = \<lparr> n_id = 0, n_receiverId = ''u1'', n_type = ''chat'', n_payload = None,
       n_read = False, n_appId = Some ''app1'', n_senderId = None,
       n_channel = Some ''default'', n_createdAt = 1, n_updatedAt = 1 \<rparr>"

definition sample_order :: notification where
  "sample_order = \<lparr> n_id = 1, n_receiverId = ''u1'', n_type = ''order'',
       n_payload = Some (JObj [(''total'', JNum ''12'')]),
       n_read = True, n_appId = Some ''app1'', n_senderId = None,
       n_channel = Some ''default'', n_createdAt = 2, n_updatedAt = 3 \<rparr>"

definition sample_no_app :: notification where
  "sample_no_app = \<lparr> n_id = 2, n_receiverId = ''u1'', n_type = ''chat'', n_payload = None,
       n_read = False, n_appId = None, n_senderId = None,
       n_channel = Some ''default'', n_createdAt = 4, n_updatedAt = 4 \<rparr>"

definition sample_state :: app_state where
  "sample_state = \<lparr> db = [sample_chat, sample_order, sample_no_app], io = True,
       activeConnections = [(''u1'', [''s1''])] \<rparr>"

definition empty_state :: app_state where
  "empty_state = \<lparr> db = [], io = True, activeConnections = [] \<rparr>"

definition sample_body :: body where
  "sample_body = \<lparr> b_receiverId = Some (JStr ''u1''), b_type = Some (JStr ''chat''),
       b_payload = None, b_appId = Some (JStr ''app1''), b_senderId = None,
       b_channel = None \<rparr>"

lemmas sample_defs = sample_chat_def sample_order_def sample_no_app_def sample_state_def
  empty_state_def sample_body_def

section \<open>Facts about the table operations\<close>

lemma map_of_map_set: "map_of (map_set m k v) k' = (if k' = k then Some v else map_of m k')"
  by (induction m) auto

lemma keys_map_set: "fst ` set (map_set m k v) = insert k (fst ` set m)"
proof (induction m)
  case Nil
  then show ?case by simp
next
  case (Cons p m)
  then show ?case by (cases p) (simp add: insert_commute)
qed

lemma distinct_map_set: "distinct (map fst m) \<Longrightarrow> distinct (map fst (map_set m k v))"
proof (induction m)
  case Nil
  then show ?case by simp
next
  case (Cons p m)
  obtain k' v' where p: "p = (k', v')" by (cases p)
  from Cons have d: "distinct (map fst (map_set m k v))" and nk: "k' \<notin> fst ` set m"
    by (auto simp: p)
  show ?case
  proof (cases "k' = k")
    case True
    with Cons.prems show ?thesis by (simp add: p)
  next
    case False
    with d nk show ?thesis by (simp add: p keys_map_set)
  qed
qed

lemma keys_disconnect: "fst ` set (disconnect sid m) \<subseteq> fst ` set m"
  by (induction sid m rule: disconnect.induct) (auto simp: Let_def)

lemma distinct_disconnect: "distinct (map fst m) \<Longrightarrow> distinct (map fst (disconnect sid m))"
proof (induction sid m rule: disconnect.induct)
  case (1 sid)
  then show ?case by simp
next
  case (2 sid receiverId sockets rest)
  then show ?case using keys_disconnect [of sid rest] by (auto simp: Let_def)
qed

lemma map_of_disconnect:
  "distinct (map fst m) \<Longrightarrow>
   map_of (disconnect sid m) r =
     (case map_of m r of
        None \<Rightarrow> None
      | Some ss \<Rightarrow> if set_delete sid ss = [] then None else Some (set_delete sid ss))"
proof (induction sid m rule: disconnect.induct)
  case (1 sid)
  then show ?case by simp
next
  case (2 sid receiverId sockets rest)
  have absent: "receiverId \<notin> fst ` set (disconnect sid rest)"
    using "2.prems" keys_disconnect [of sid rest] by auto
  then have none: "map_of (disconnect sid rest) receiverId = None"
    by (simp add: map_of_eq_None_iff)
  from 2 show ?case by (auto simp: Let_def none)
qed

lemma set_delete_empty_iff: "set_delete sid ss = [] \<longleftrightarrow> set ss \<subseteq> {sid}"
  by (auto simp: set_delete_def filter_empty_conv)

lemma wf_subscribe: "wf_registry ac \<Longrightarrow> wf_registry (fst (subscribe sid r ac))"
  by (cases r)
     (auto simp: subscribe_def wf_registry_def Let_def distinct_map_set split: option.splits)

lemma wf_unsubscribe: "wf_registry ac \<Longrightarrow> wf_registry (fst (unsubscribe sid r ac))"
  by (cases r) (auto simp: unsubscribe_def wf_registry_def distinct_map_set split: option.splits)

lemma wf_handle: "wf_registry ac \<Longrightarrow> wf_registry (handle ac ev)"
  by (cases ev) (simp_all add: wf_subscribe wf_unsubscribe, simp add: wf_registry_def distinct_disconnect)

lemma wf_foldl_handle: "wf_registry ac \<Longrightarrow> wf_registry (foldl handle ac evs)"
  by (induction evs arbitrary: ac) (simp_all add: wf_handle)

lemma wf_run: "wf_registry (run evs)"
  unfolding run_def by (rule wf_foldl_handle) (simp add: wf_registry_def)

lemma set_add_nonempty: "set_add s ss \<noteq> []"
  by (auto simp: set_add_def)

lemma map_set_twice: "map_set (map_set m k v) k w = map_set m k w"
  by (induction m) auto

lemma no_empty_map_set:
  "no_empty_sets m \<Longrightarrow> v \<noteq> [] \<Longrightarrow> no_empty_sets (map_set m k v)"
  by (induction m) (auto simp: no_empty_sets_def)

text \<open>Subscribing keeps the table free of empty sets, and a disconnect leaves none.\<close>

lemma no_empty_subscribe: "no_empty_sets ac \<Longrightarrow> no_empty_sets (fst (subscribe sid r ac))"
proof (cases r)
  case (Str k)
  assume inv: "no_empty_sets ac"
  show ?thesis
  proof (cases "map_has ac k")
    case True
    then obtain ss where "map_of ac k = Some ss" by (auto simp: map_has_def)
    with inv True show ?thesis
      by (simp add: Str subscribe_def map_get_def no_empty_map_set set_add_nonempty)
  next
    case False
    with inv show ?thesis
      by (simp add: Str subscribe_def map_get_def map_of_map_set map_set_twice
                    no_empty_map_set set_add_nonempty)
  qed
qed (simp_all add: subscribe_def)

lemma no_empty_disconnect: "no_empty_sets (disconnect sid ac)"
  by (induction sid ac rule: disconnect.induct) (auto simp: no_empty_sets_def Let_def)

section \<open>Facts about the collection and the routes\<close>

lemma later_version_refl: "later_version n n"
  by (simp add: later_version_def)

lemma later_version_trans:
  "later_version a b \<Longrightarrow> later_version b c \<Longrightarrow> later_version a c"
  by (cases a; cases b; cases c) (auto simp: later_version_def)

lemma later_version_mark: "later_version n (mark now n)"
  by (cases n) (simp add: later_version_def mark_def)

lemma evolves_refl: "evolves c c"
  by (simp add: evolves_def list_all2_refl later_version_refl)

lemma evolves_nth:
  "evolves c c' \<Longrightarrow> i < length c \<Longrightarrow> i < length c' \<and> later_version (c ! i) (c' ! i)"
  by (auto simp: evolves_def list_all2_conv_all_nth)

lemma evolves_nthI:
  assumes "length c \<le> length c'"
    and "\<And>i. i < length c \<Longrightarrow> later_version (c ! i) (c' ! i)"
  shows "evolves c c'"
  using assms by (auto simp: evolves_def list_all2_conv_all_nth)

lemma evolves_trans: "evolves a b \<Longrightarrow> evolves b c \<Longrightarrow> evolves a c"
proof (rule evolves_nthI)
  assume ab: "evolves a b" and bc: "evolves b c"
  then show "length a \<le> length c" by (simp add: evolves_def)
  fix i assume i: "i < length a"
  from evolves_nth [OF ab i] have ib: "i < length b" and 1: "later_version (a ! i) (b ! i)"
    by simp_all
  from evolves_nth [OF bc ib] have "later_version (b ! i) (c ! i)" by simp
  with 1 show "later_version (a ! i) (c ! i)" by (rule later_version_trans)
qed

lemma evolves_append: "evolves c (c @ extra)"
  by (rule evolves_nthI) (simp_all add: nth_append later_version_refl)

lemma evolves_findByIdAndUpdate: "evolves ns (snd (findByIdAndUpdate now i ns))"
proof (induction ns)
  case Nil
  then show ?case by (simp add: evolves_def)
next
  case (Cons n ns)
  show ?case
  proof (cases "n_id n = i")
    case True
    then show ?thesis
      by (simp add: evolves_def later_version_mark list_all2_refl later_version_refl)
  next
    case False
    with Cons show ?thesis
      by (auto simp: evolves_def later_version_refl split: prod.splits)
  qed
qed

lemma evolves_updateMany: "evolves coll (snd (updateMany now f coll))"
  by (rule evolves_nthI) (simp_all add: updateMany_def later_version_mark later_version_refl)

lemma Notification_create_appends:
  "Notification_create now oid d coll = Inr (doc, p, coll') \<Longrightarrow> coll' = coll @ [doc]"
  by (auto simp: Notification_create_def Let_def split: option.splits)

lemma evolves_post_route: "evolves (db st) (db (fst (snd (post_route now oid b st))))"
proof (cases "\<not> js_truthy (b_receiverId b) \<or> \<not> js_truthy (b_type b)")
  case True
  then show ?thesis by (simp add: post_route_def evolves_refl)
next
  case False
  define d where "d = \<lparr> d_receiverId = b_receiverId b, d_type = b_type b,
                  d_payload = Some (or_empty_object (b_payload b)),
                  d_appId = b_appId b, d_senderId = b_senderId b,
                  d_channel = b_channel b \<rparr>"
  show ?thesis
  proof (cases "Notification_create now oid d (db st)")
    case (Inl e)
    with False show ?thesis by (simp add: post_route_def d_def [symmetric] evolves_refl)
  next
    case (Inr res)
    obtain doc p coll where res: "res = (doc, p, coll)" by (cases res)
    from Inr res have "coll = db st @ [doc]" by (simp add: Notification_create_appends)
    with False Inr res show ?thesis
      by (simp add: post_route_def d_def [symmetric] Let_def evolves_append
               split: prod.splits)
  qed
qed

lemma evolves_patch_read_route: "evolves (db st) (db (snd (patch_read_route now i st)))"
proof (cases "findByIdAndUpdate now i (db st)")
  case (Pair r coll)
  with evolves_findByIdAndUpdate [of "db st" now i] show ?thesis
    by (cases r) (simp_all add: patch_read_route_def evolves_refl)
qed

lemma evolves_patch_read_all_route:
  "evolves (db st) (db (snd (patch_read_all_route now r q st)))"
proof (cases "ra_appId q")
  case (Str a)
  show ?thesis
  proof (cases "a = []")
    case True
    with Str show ?thesis by (simp add: patch_read_all_route_def evolves_refl)
  next
    case False
    with Str evolves_updateMany show ?thesis
      by (simp add: patch_read_all_route_def Let_def split: prod.splits)
         (metis snd_conv)
  qed
qed (simp_all add: patch_read_all_route_def evolves_refl)

lemma evolves_apply_op: "evolves (db st) (db (apply_op st op))"
  by (cases op)
     (simp_all add: evolves_post_route evolves_patch_read_route evolves_patch_read_all_route
                    evolves_refl)

lemma evolves_foldl: "evolves (db st) (db (foldl apply_op st ops))"
proof (induction ops arbitrary: st)
  case Nil
  then show ?case by (simp add: evolves_refl)
next
  case (Cons op ops)
  from evolves_apply_op [of st op] Cons [of "apply_op st op"]
  show ?case by (simp add: evolves_trans)
qed

lemma evolves_exec_ops: "evolves (db st) (db (exec_ops st ops))"
  by (simp add: exec_ops_def evolves_foldl)

lemma later_version_fields:
  "later_version n n' \<Longrightarrow>
     n_id n' = n_id n \<and> n_receiverId n' = n_receiverId n \<and> n_appId n' = n_appId n \<and>
     (n_read n \<longrightarrow> n_read n')"
  by (cases n; cases n') (auto simp: later_version_def)

lemma mark_read: "n_read n \<Longrightarrow> mark now n = n\<lparr> n_updatedAt := now \<rparr>"
  by (cases n) (simp add: mark_def)

lemma findByIdAndUpdate_found:
  "find (\<lambda>n. n_id n = k) ns = Some n \<Longrightarrow> fst (findByIdAndUpdate now k ns) = Some (mark now n)"
  by (induction ns) (auto split: prod.splits if_splits)

lemma findByIdAndUpdate_stamps:
  "find (\<lambda>n. n_id n = k) ns = Some n \<Longrightarrow> n_read n \<Longrightarrow>
   map (\<lambda>m. m\<lparr> n_updatedAt := 0 \<rparr>) (snd (findByIdAndUpdate now k ns))
     = map (\<lambda>m. m\<lparr> n_updatedAt := 0 \<rparr>) ns"
  by (induction ns) (auto simp: mark_read split: prod.splits if_splits)

lemma matches_read_all:
  "matches (add_channel (ra_channel q) (add_type (ra_type q)
      \<lparr> f_receiverId = r, f_appId = a, f_read = Some False, f_type = None, f_channel = None \<rparr>)) n
   = in_scope r a q n"
  by (cases "ra_type q"; cases "ra_channel q") (auto simp: matches_def in_scope_def)

lemma mark_changes_unread: "\<not> n_read n \<Longrightarrow> mark now n \<noteq> n"
  by (cases n) (auto simp: mark_def)

lemma in_scope_unread: "in_scope r a q n \<Longrightarrow> \<not> n_read n"
  by (simp add: in_scope_def)

lemma not_in_scope_mark: "\<not> in_scope r a q (mark now n)"
  by (cases n) (simp add: in_scope_def mark_def)

lemma set_find_sorted_subset: "set (find_sorted f s l coll) \<subseteq> {n \<in> set coll. matches f n}"
proof -
  have "set (take l (drop s (sort_key (\<lambda>n. - int (n_createdAt n)) (filter (matches f) coll))))
          \<subseteq> set (filter (matches f) coll)"
    using set_take_subset set_drop_subset
    by (metis (no_types, lifting) order_trans set_sort)
  moreover have "set (drop s (sort_key (\<lambda>n. - int (n_createdAt n)) (filter (matches f) coll)))
          \<subseteq> set (filter (matches f) coll)"
    using set_drop_subset by (metis set_sort)
  ultimately show ?thesis by (auto simp: find_sorted_def Let_def)
qed


lemma matches_list_query:
  "matches (add_channel (q_channel q) (add_type (q_type q)
      (if q_unreadOnly q = Str ''true''
       then \<lparr> f_receiverId = r, f_appId = a, f_read = None, f_type = None, f_channel = None \<rparr>
              \<lparr> f_read := Some False \<rparr>
       else \<lparr> f_receiverId = r, f_appId = a, f_read = None, f_type = None, f_channel = None \<rparr>))) n
   = (n_receiverId n = r \<and> n_appId n = Some a \<and> passes_filters q n)"
  by (cases "q_type q"; cases "q_channel q") (auto simp: matches_def passes_filters_def)

lemma matches_base:
  "matches \<lparr> f_receiverId = r, f_appId = a, f_read = None, f_type = None, f_channel = None \<rparr>
     = (\<lambda>n. n_receiverId n = r \<and> n_appId n = Some a)"
  by (rule ext) (simp add: matches_def)

lemma matches_base_unread:
  "matches \<lparr> f_receiverId = r, f_appId = a, f_read = Some False, f_type = None,
             f_channel = None \<rparr>
     = (\<lambda>n. n_receiverId n = r \<and> n_appId n = Some a \<and> \<not> n_read n)"
  by (rule ext) (simp add: matches_def)

lemma get_route_ok:
  assumes "q_appId q = Str a" and "a \<noteq> []"
  shows "get_route r q st =
     Inr (200,
       \<lparr> lr_notifications =
           find_sorted (add_channel (q_channel q) (add_type (q_type q)
              (if q_unreadOnly q = Str ''true''
               then \<lparr> f_receiverId = r, f_appId = a, f_read = None, f_type = None,
                      f_channel = None \<rparr> \<lparr> f_read := Some False \<rparr>
               else \<lparr> f_receiverId = r, f_appId = a, f_read = None, f_type = None,
                      f_channel = None \<rparr>)))
             (case q_skip q of None \<Rightarrow> 0 | Some s \<Rightarrow> s)
             (case q_limit q of None \<Rightarrow> 50 | Some l \<Rightarrow> l) (db st),
         lr_total = length (filter (\<lambda>n. n_receiverId n = r \<and> n_appId n = Some a) (db st)),
         lr_unreadCount =
           length (filter (\<lambda>n. n_receiverId n = r \<and> n_appId n = Some a \<and> \<not> n_read n) (db st)),
         lr_isOnline = isReceiverOnline (activeConnections st) r \<rparr>)"
  using assms
  by (simp add: get_route_def Let_def countDocuments_def matches_base matches_base_unread
           split del: if_split)

lemma get_route_Inr:
  assumes "get_route r q st = Inr (code, resp)"
  shows "\<exists>a. q_appId q = Str a \<and> a \<noteq> []"
  using assms by (cases "q_appId q") (auto simp: get_route_def split: if_splits)

lemma get_route_listed:
  assumes "q_appId q = Str a" and "a \<noteq> []" and "get_route r q st = Inr (code, resp)"
  shows "set (lr_notifications resp)
           \<subseteq> {n \<in> set (db st). n_receiverId n = r \<and> n_appId n = Some a \<and> passes_filters q n}"
proof -
  let ?F = "add_channel (q_channel q) (add_type (q_type q)
              (if q_unreadOnly q = Str ''true''
               then \<lparr> f_receiverId = r, f_appId = a, f_read = None, f_type = None,
                      f_channel = None \<rparr> \<lparr> f_read := Some False \<rparr>
               else \<lparr> f_receiverId = r, f_appId = a, f_read = None, f_type = None,
                      f_channel = None \<rparr>))"
  let ?s = "case q_skip q of None \<Rightarrow> 0 | Some s \<Rightarrow> s"
  let ?l = "case q_limit q of None \<Rightarrow> 50 | Some l \<Rightarrow> l"
  define R where "R = \<lparr> lr_notifications = find_sorted ?F ?s ?l (db st),
         lr_total = length (filter (\<lambda>n. n_receiverId n = r \<and> n_appId n = Some a) (db st)),
         lr_unreadCount =
           length (filter (\<lambda>n. n_receiverId n = r \<and> n_appId n = Some a \<and> \<not> n_read n) (db st)),
         lr_isOnline = isReceiverOnline (activeConnections st) r \<rparr>"
  have "get_route r q st = Inr (200, R)"
    unfolding R_def by (rule get_route_ok [OF assms(1,2)])
  with assms(3) have "resp = R" by simp
  moreover have "lr_notifications R = find_sorted ?F ?s ?l (db st)"
    unfolding R_def by (simp only: list_response.select_convs)
  ultimately have eq: "lr_notifications resp = find_sorted ?F ?s ?l (db st)"
    by (simp only:)
  have "set (find_sorted ?F ?s ?l (db st)) \<subseteq> {n \<in> set (db st). matches ?F n}"
    by (rule set_find_sorted_subset)
  then show ?thesis
    unfolding eq matches_list_query .
qed

text \<open>What is stored for an application id that is absent, \<open>null\<close> or a string.\<close>

lemma stored_string_simple:
  "stored_string None None = None"
  "stored_string None (Some JNull) = None"
  "stored_string None (Some (JStr s)) = Some s"
  by (simp_all add: stored_string_def)


lemma required_string_ok:
  "required_ok x \<Longrightarrow> \<exists>s. required_string x = Some s \<and> s \<noteq> [] \<and> stored_string d x = Some s"
  by (auto simp: required_ok_def required_string_def stored_string_def
           split: option.splits cast_result.splits)

lemma required_string_not_ok: "\<not> required_ok x \<Longrightarrow> required_string x = None"
  by (auto simp: required_ok_def required_string_def split: option.splits cast_result.splits)

lemma optional_string_castable:
  "castable x \<Longrightarrow> optional_string d x = Some (stored_string d x)"
  by (auto simp: castable_def optional_string_def stored_string_def
           split: option.splits cast_result.splits)

lemma optional_string_not_castable: "\<not> castable x \<Longrightarrow> optional_string d x = None"
  by (auto simp: castable_def optional_string_def split: option.splits cast_result.splits)

lemma Notification_create_invalid:
  assumes "\<not> (required_ok (d_receiverId d) \<and> required_ok (d_type d) \<and>
              castable (d_appId d) \<and> castable (d_senderId d) \<and> castable (d_channel d))"
  shows "Notification_create now oid d coll
           = Inl (SchemaValidation ''Notification validation failed'')"
proof -
  from assms have "required_string (d_receiverId d) = None \<or> required_string (d_type d) = None \<or>
      optional_string None (d_appId d) = None \<or> optional_string None (d_senderId d) = None \<or>
      optional_string (Some ''default'') (d_channel d) = None"
    by (auto simp: required_string_not_ok optional_string_not_castable)
  then show ?thesis
    by (auto simp: Notification_create_def split: option.splits)
qed

lemma Notification_create_valid:
  assumes "required_ok (d_receiverId d)" and "required_ok (d_type d)"
    and "castable (d_appId d)" and "castable (d_senderId d)" and "castable (d_channel d)"
  shows "\<exists>r t. required_string (d_receiverId d) = Some r \<and> r \<noteq> [] \<and>
               required_string (d_type d) = Some t \<and> t \<noteq> [] \<and>
          Notification_create now oid d coll
           = Inr (\<lparr> n_id = oid, n_receiverId = r, n_type = t,
                    n_payload = minimize False (case d_payload d of None \<Rightarrow> JObj [] | Some p \<Rightarrow> p),
                    n_read = False,
                    n_appId = stored_string None (d_appId d),
                    n_senderId = stored_string None (d_senderId d),
                    n_channel = stored_string (Some ''default'') (d_channel d),
                    n_createdAt = now, n_updatedAt = now \<rparr>,
                  (case d_payload d of None \<Rightarrow> JObj [] | Some p \<Rightarrow> p),
                  coll @ [\<lparr> n_id = oid, n_receiverId = r, n_type = t,
                    n_payload = minimize False (case d_payload d of None \<Rightarrow> JObj [] | Some p \<Rightarrow> p),
                    n_read = False,
                    n_appId = stored_string None (d_appId d),
                    n_senderId = stored_string None (d_senderId d),
                    n_channel = stored_string (Some ''default'') (d_channel d),
                    n_createdAt = now, n_updatedAt = now \<rparr>])"
proof -
  from required_string_ok [OF assms(1)] obtain r where
    r: "required_string (d_receiverId d) = Some r" "r \<noteq> []" by blast
  from required_string_ok [OF assms(2)] obtain t where
    t: "required_string (d_type d) = Some t" "t \<noteq> []" by blast
  from r t show ?thesis
    by (simp add: Notification_create_def Let_def optional_string_castable [OF assms(3)]
          optional_string_castable [OF assms(4)] optional_string_castable [OF assms(5)])
qed

lemma post_route_bad:
  "\<not> js_truthy (b_receiverId b) \<or> \<not> js_truthy (b_type b) \<Longrightarrow>
   post_route now oid b st
     = (Inl (BadRequest ''Missing required fields: receiverId, type''), st, [])"
  by (simp add: post_route_def)

lemma post_route_invalid:
  assumes "js_truthy (b_receiverId b)" and "js_truthy (b_type b)" and "\<not> schema_accepts b"
  shows "post_route now oid b st
           = (Inl (SchemaValidation ''Notification validation failed''), st, [])"
proof -
  define d where "d = \<lparr> d_receiverId = b_receiverId b, d_type = b_type b,
                  d_payload = Some (or_empty_object (b_payload b)),
                  d_appId = b_appId b, d_senderId = b_senderId b,
                  d_channel = b_channel b \<rparr>"
  from assms(3) have "\<not> (required_ok (d_receiverId d) \<and> required_ok (d_type d) \<and>
              castable (d_appId d) \<and> castable (d_senderId d) \<and> castable (d_channel d))"
    by (simp add: schema_accepts_def d_def)
  from Notification_create_invalid [OF this, of now oid "db st"] assms(1,2) show ?thesis
    by (simp add: post_route_def d_def [symmetric])
qed

lemma post_route_valid:
  assumes "js_truthy (b_receiverId b)" and "js_truthy (b_type b)" and "schema_accepts b"
  shows "\<exists>r t room.
           b_receiverId b = Some room \<and>
           required_string (b_receiverId b) = Some r \<and> r \<noteq> [] \<and>
           required_string (b_type b) = Some t \<and> t \<noteq> [] \<and>
           post_route now oid b st
             = (Inr (201, \<lparr> cr_success = True,
                   cr_notification =
                     \<lparr> n_id = oid, n_receiverId = r, n_type = t,
                       n_payload = minimize False (or_empty_object (b_payload b)), n_read = False,
                       n_appId = stored_string None (b_appId b),
                       n_senderId = stored_string None (b_senderId b),
                       n_channel = stored_string (Some ''default'') (b_channel b),
                       n_createdAt = now, n_updatedAt = now \<rparr>,
                   cr_delivered = io st \<rparr>),
                st\<lparr> db := db st @
                     [\<lparr> n_id = oid, n_receiverId = r, n_type = t,
                       n_payload = minimize False (or_empty_object (b_payload b)), n_read = False,
                       n_appId = stored_string None (b_appId b),
                       n_senderId = stored_string None (b_senderId b),
                       n_channel = stored_string (Some ''default'') (b_channel b),
                       n_createdAt = now, n_updatedAt = now \<rparr>] \<rparr>,
                [Persist \<lparr> n_id = oid, n_receiverId = r, n_type = t,
                       n_payload = minimize False (or_empty_object (b_payload b)), n_read = False,
                       n_appId = stored_string None (b_appId b),
                       n_senderId = stored_string None (b_senderId b),
                       n_channel = stored_string (Some ''default'') (b_channel b),
                       n_createdAt = now, n_updatedAt = now \<rparr>,
                 if io st
                 then Emit room \<lparr> pe_id = oid, pe_type = t, pe_payload = or_empty_object (b_payload b),
                        pe_channel = stored_string (Some ''default'') (b_channel b),
                        pe_senderId = stored_string None (b_senderId b),
                        pe_createdAt = now \<rparr>
                 else LogError ''Socket.IO not initialized'',
                 Respond 201])"
proof -
  define d where "d = \<lparr> d_receiverId = b_receiverId b, d_type = b_type b,
                  d_payload = Some (or_empty_object (b_payload b)),
                  d_appId = b_appId b, d_senderId = b_senderId b,
                  d_channel = b_channel b \<rparr>"
  from assms(1) obtain room where room: "b_receiverId b = Some room"
    by (cases "b_receiverId b") auto
  have pl: "(case d_payload d of None \<Rightarrow> JObj [] | Some p \<Rightarrow> p) = or_empty_object (b_payload b)"
    by (simp add: d_def)
  from assms(3) have ok: "required_ok (d_receiverId d)" "required_ok (d_type d)"
      "castable (d_appId d)" "castable (d_senderId d)" "castable (d_channel d)"
    by (simp_all add: schema_accepts_def d_def)
  from Notification_create_valid [OF ok, of now oid "db st"] obtain r t where
    r: "required_string (b_receiverId b) = Some r" "r \<noteq> []"
    and t: "required_string (b_type b) = Some t" "t \<noteq> []"
    and c: "Notification_create now oid d (db st)
           = Inr (\<lparr> n_id = oid, n_receiverId = r, n_type = t,
                    n_payload = minimize False (or_empty_object (b_payload b)),
                    n_read = False,
                    n_appId = stored_string None (b_appId b),
                    n_senderId = stored_string None (b_senderId b),
                    n_channel = stored_string (Some ''default'') (b_channel b),
                    n_createdAt = now, n_updatedAt = now \<rparr>,
                  or_empty_object (b_payload b),
                  db st @ [\<lparr> n_id = oid, n_receiverId = r, n_type = t,
                    n_payload = minimize False (or_empty_object (b_payload b)),
                    n_read = False,
                    n_appId = stored_string None (b_appId b),
                    n_senderId = stored_string None (b_senderId b),
                    n_channel = stored_string (Some ''default'') (b_channel b),
                    n_createdAt = now, n_updatedAt = now \<rparr>])"
    unfolding pl by (auto simp: d_def)
  from assms(1,2) c [unfolded d_def] room have "post_route now oid b st
             = (Inr (201, \<lparr> cr_success = True,
                   cr_notification =
                     \<lparr> n_id = oid, n_receiverId = r, n_type = t,
                       n_payload = minimize False (or_empty_object (b_payload b)), n_read = False,
                       n_appId = stored_string None (b_appId b),
                       n_senderId = stored_string None (b_senderId b),
                       n_channel = stored_string (Some ''default'') (b_channel b),
                       n_createdAt = now, n_updatedAt = now \<rparr>,
                   cr_delivered = io st \<rparr>),
                st\<lparr> db := db st @
                     [\<lparr> n_id = oid, n_receiverId = r, n_type = t,
                       n_payload = minimize False (or_empty_object (b_payload b)), n_read = False,
                       n_appId = stored_string None (b_appId b),
                       n_senderId = stored_string None (b_senderId b),
                       n_channel = stored_string (Some ''default'') (b_channel b),
                       n_createdAt = now, n_updatedAt = now \<rparr>] \<rparr>,
                [Persist \<lparr> n_id = oid, n_receiverId = r, n_type = t,
                       n_payload = minimize False (or_empty_object (b_payload b)), n_read = False,
                       n_appId = stored_string None (b_appId b),
                       n_senderId = stored_string None (b_senderId b),
                       n_channel = stored_string (Some ''default'') (b_channel b),
                       n_createdAt = now, n_updatedAt = now \<rparr>,
                 if io st
                 then Emit room \<lparr> pe_id = oid, pe_type = t, pe_payload = or_empty_object (b_payload b),
                        pe_channel = stored_string (Some ''default'') (b_channel b),
                        pe_senderId = stored_string None (b_senderId b),
                        pe_createdAt = now \<rparr>
                 else LogError ''Socket.IO not initialized'',
                 Respond 201])"
    by (simp add: post_route_def sendNotification_def Let_def)
  with room r t show ?thesis by blast
qed

lemma post_route_ok:
  assumes "post_route now oid b st = (Inr (code, resp), st', tr)"
  shows "code = 201 \<and> cr_success resp = True \<and> cr_delivered resp = io st \<and>
         n_id (cr_notification resp) = oid \<and>
         n_read (cr_notification resp) = False \<and>
         n_payload (cr_notification resp) = minimize False (or_empty_object (b_payload b)) \<and>
         n_appId (cr_notification resp) = stored_string None (b_appId b) \<and>
         n_senderId (cr_notification resp) = stored_string None (b_senderId b) \<and>
         n_channel (cr_notification resp) = stored_string (Some ''default'') (b_channel b) \<and>
         n_createdAt (cr_notification resp) = now \<and> n_updatedAt (cr_notification resp) = now \<and>
         st' = st\<lparr> db := db st @ [cr_notification resp] \<rparr> \<and>
         (\<exists>push. tr = [Persist (cr_notification resp), push, Respond 201] \<and>
                  (\<exists>room ev m. push = Emit room ev \<or> push = LogError m))"
proof -
  from assms post_route_bad [of b now oid st]
  have tr: "js_truthy (b_receiverId b)" "js_truthy (b_type b)" by auto
  with assms post_route_invalid [of b now oid st] have acc: "schema_accepts b" by auto
  from post_route_valid [OF tr acc, of now oid st] assms show ?thesis
    by (cases "io st") auto
qed

text \<open>What a push returns: whether the transport is initialized.\<close>

lemma sendNotification_result: "fst (sendNotification st r ev) = io st"
  by (simp add: sendNotification_def)

text \<open>
  What a successful creation sets by default: \<open>read\<close> is false and the channel is
  \<open>default\<close> when the request has none.
\<close>

lemma create_read_and_channel:
  assumes "post_route now oid b st = (Inr (code, resp), st', tr)"
  shows "n_read (cr_notification resp) = False \<and>
         (b_channel b = None \<longrightarrow> n_channel (cr_notification resp) = Some ''default'')"
  using post_route_ok [OF assms] by (simp add: stored_string_def)

section \<open>The push result (C1)\<close>

text \<open>
  C1: while the transport is initialized, a push returns true exactly when the table of
  active connections shows the receiver online, so a creation for a receiver without a
  live session answers \<open>delivered = false\<close>. The code does not do so: with the transport
  initialized and no session of \<open>u1\<close> in the table, \<open>sendNotification\<close> returns true
  and the creation route answers \<open>delivered = true\<close>.
\<close>

theorem push_true_for_offline_receiver:
  "fst (sendNotification \<lparr> db = [], io = True, activeConnections = [] \<rparr> (JStr ''u1'')
          \<lparr> pe_id = 0, pe_type = ''chat'', pe_payload = JObj [], pe_channel = Some ''default'',
            pe_senderId = None, pe_createdAt = 1 \<rparr>) = True
   \<and> isReceiverOnline (activeConnections \<lparr> db = [], io = True, activeConnections = [] \<rparr>) ''u1'' = False
   \<and> fst (post_route 1 0
        \<lparr> b_receiverId = Some (JStr ''u1''), b_type = Some (JStr ''chat''), b_payload = None,
          b_appId = Some (JStr ''app1''), b_senderId = None, b_channel = None \<rparr>
        \<lparr> db = [], io = True, activeConnections = [] \<rparr>)
     = Inr (201, \<lparr> cr_success = True,
                    cr_notification = \<lparr> n_id = 0, n_receiverId = ''u1'', n_type = ''chat'',
                      n_payload = None, n_read = False, n_appId = Some ''app1'',
                      n_senderId = None, n_channel = Some ''default'',
                      n_createdAt = 1, n_updatedAt = 1 \<rparr>,
                    cr_delivered = True \<rparr>)"
  by (simp add: sendNotification_def isReceiverOnline_def map_has_def post_route_def
                Notification_create_def required_string_def optional_string_def Let_def)

text \<open>
  Read off the evaluation above: the creation is answered with 201 and \<open>delivered\<close>
  true, while \<open>u1\<close> is offline.
\<close>

theorem push_true_for_offline_receiver_witness:
  "\<exists>resp. fst (post_route 1 0
        \<lparr> b_receiverId = Some (JStr ''u1''), b_type = Some (JStr ''chat''), b_payload = None,
          b_appId = Some (JStr ''app1''), b_senderId = None, b_channel = None \<rparr>
        \<lparr> db = [], io = True, activeConnections = [] \<rparr>) = Inr (201, resp) \<and>
      cr_delivered resp = True \<and>
      isReceiverOnline (activeConnections \<lparr> db = [], io = True, activeConnections = [] \<rparr>) ''u1''
        = False"
proof -
  from push_true_for_offline_receiver
  have "fst (post_route 1 0
        \<lparr> b_receiverId = Some (JStr ''u1''), b_type = Some (JStr ''chat''), b_payload = None,
          b_appId = Some (JStr ''app1''), b_senderId = None, b_channel = None \<rparr>
        \<lparr> db = [], io = True, activeConnections = [] \<rparr>)
     = Inr (201, \<lparr> cr_success = True,
                    cr_notification = \<lparr> n_id = 0, n_receiverId = ''u1'', n_type = ''chat'',
                      n_payload = None, n_read = False, n_appId = Some ''app1'',
                      n_senderId = None, n_channel = Some ''default'',
                      n_createdAt = 1, n_updatedAt = 1 \<rparr>,
                    cr_delivered = True \<rparr>)"
    and "isReceiverOnline (activeConnections \<lparr> db = [], io = True, activeConnections = [] \<rparr>) ''u1''
        = False"
    by blast+
  then show ?thesis by simp
qed

section \<open>Empty sets in the table (C2)\<close>

text \<open>
  C2: after every subscribe, unsubscribe and disconnect no receiver maps to an empty set.
  The unsubscribe handler does not keep this: a socket that subscribes to a receiver and
  unsubscribes again leaves the receiver's entry in the table with an empty set.
\<close>

theorem unsubscribe_keeps_empty_entry:
  "run [Subscribe ''s1'' (Str ''u1''), Unsubscribe ''s1'' (Str ''u1'')] = [(''u1'', [])]
   \<and> \<not> no_empty_sets (run [Subscribe ''s1'' (Str ''u1''), Unsubscribe ''s1'' (Str ''u1'')])"
  by (simp add: run_def subscribe_def unsubscribe_def map_has_def map_get_def set_add_def
                set_delete_def no_empty_sets_def)

section \<open>Presence after a disconnect (C3)\<close>

text \<open>
  C3: a receiver is online exactly when the table holds a non-empty set for it; after the
  disconnect of a session a receiver is online exactly when it had some other live
  session. So a receiver whose last session it was is offline afterwards, and a receiver
  with a distinct live session stays online.
\<close>

theorem disconnect_isOnline:
  assumes "wf_registry ac"
  shows "(isReceiverOnline ac r \<longleftrightarrow> (\<exists>ss. map_get ac r = Some ss \<and> ss \<noteq> [])) \<and>
         (isReceiverOnline (disconnect sid ac) r \<longleftrightarrow>
            (\<exists>ss. map_get ac r = Some ss \<and> (\<exists>s \<in> set ss. s \<noteq> sid)))"
proof
  show "isReceiverOnline ac r \<longleftrightarrow> (\<exists>ss. map_get ac r = Some ss \<and> ss \<noteq> [])"
    by (auto simp: isReceiverOnline_def map_has_def map_get_def split: option.splits)
next
  from assms have d: "distinct (map fst ac)" by (simp add: wf_registry_def)
  show "isReceiverOnline (disconnect sid ac) r \<longleftrightarrow>
          (\<exists>ss. map_get ac r = Some ss \<and> (\<exists>s \<in> set ss. s \<noteq> sid))"
  proof (cases "map_of ac r")
    case None
    then show ?thesis
      by (simp add: isReceiverOnline_def map_has_def map_get_def map_of_disconnect [OF d])
  next
    case (Some ss)
    have "isReceiverOnline (disconnect sid ac) r \<longleftrightarrow> set_delete sid ss \<noteq> []"
      using Some
      by (simp add: isReceiverOnline_def map_has_def map_get_def map_of_disconnect [OF d])
    also have "\<dots> \<longleftrightarrow> (\<exists>s \<in> set ss. s \<noteq> sid)"
      by (auto simp: set_delete_empty_iff)
    finally show ?thesis using Some by (simp add: map_get_def)
  qed
qed

text \<open>
  Session \<open>s1\<close> is the only one of \<open>u1\<close> and one of two of \<open>u2\<close>: after its
  disconnect \<open>u1\<close> is offline and \<open>u2\<close> online.
\<close>

theorem disconnect_isOnline_witness:
  "wf_registry [(''u1'', [''s1'']), (''u2'', [''s1'', ''s2''])] \<and>
   isReceiverOnline [(''u1'', [''s1'']), (''u2'', [''s1'', ''s2''])] ''u1'' \<and>
   \<not> isReceiverOnline (disconnect ''s1'' [(''u1'', [''s1'']), (''u2'', [''s1'', ''s2''])]) ''u1'' \<and>
   isReceiverOnline (disconnect ''s1'' [(''u1'', [''s1'']), (''u2'', [''s1'', ''s2''])]) ''u2''"
proof -
  have wf: "wf_registry [(''u1'', [''s1'']), (''u2'', [''s1'', ''s2''])]"
    by (simp add: wf_registry_def)
  from disconnect_isOnline [OF wf, of "''u1''" "''s1''"]
       disconnect_isOnline [OF wf, of "''u2''" "''s1''"] wf
  show ?thesis by (simp add: map_get_def)
qed

section \<open>Bulk mark-read (C4)\<close>

text \<open>
  C4: with an application id supplied, \<open>markAllRead\<close> sets \<open>read\<close> (and stamps
  \<open>updatedAt\<close>) on exactly the documents in scope (receiver, application, unread, and the
  type and channel supplied), leaves every other document as it was, reports the number of
  documents in scope as \<open>modifiedCount\<close>, and an immediately repeated call with the same
  arguments reports \<open>modifiedCount = 0\<close> and changes nothing.
\<close>

theorem markAllRead_frame:
  assumes "ra_appId q = Str a" and "a \<noteq> []"
  shows "\<exists>coll.
     patch_read_all_route now r q st
       = (Inr (200, \<lparr> ra_success = True,
                      ra_modifiedCount = length (filter (in_scope r a q) (db st)) \<rparr>),
          st\<lparr> db := coll \<rparr>) \<and>
     length coll = length (db st) \<and>
     (\<forall>i < length (db st).
        coll ! i = (if in_scope r a q (db st ! i)
                    then (db st ! i)\<lparr> n_read := True, n_updatedAt := now \<rparr>
                    else db st ! i)) \<and>
     patch_read_all_route now' r q (st\<lparr> db := coll \<rparr>)
       = (Inr (200, \<lparr> ra_success = True, ra_modifiedCount = 0 \<rparr>), st\<lparr> db := coll \<rparr>)"
proof -
  define coll where "coll = map (\<lambda>n. if in_scope r a q n then mark now n else n) (db st)"
  have cnt: "filter (\<lambda>n. in_scope r a q n \<and> mark now n \<noteq> n) (db st)
               = filter (in_scope r a q) (db st)"
    by (rule filter_cong) (auto dest: in_scope_unread mark_changes_unread)
  have first: "patch_read_all_route now r q st
       = (Inr (200, \<lparr> ra_success = True,
                      ra_modifiedCount = length (filter (in_scope r a q) (db st)) \<rparr>),
          st\<lparr> db := coll \<rparr>)"
    using assms
    by (simp add: patch_read_all_route_def updateMany_def matches_read_all cnt coll_def)
  have none: "\<not> in_scope r a q m" if "m \<in> set coll" for m
    using that by (auto simp: coll_def not_in_scope_mark split: if_splits)
  then have empty: "filter (\<lambda>n. in_scope r a q n \<and> mark now' n \<noteq> n) coll = []"
    by (simp add: filter_empty_conv)
  from none have same: "map (\<lambda>n. if in_scope r a q n then mark now' n else n) coll = coll"
    by (simp add: map_idI)
  have second: "patch_read_all_route now' r q (st\<lparr> db := coll \<rparr>)
       = (Inr (200, \<lparr> ra_success = True, ra_modifiedCount = 0 \<rparr>), st\<lparr> db := coll \<rparr>)"
    using assms
    by (simp add: patch_read_all_route_def updateMany_def matches_read_all empty same)
  have nth: "\<forall>i < length (db st).
        coll ! i = (if in_scope r a q (db st ! i)
                    then (db st ! i)\<lparr> n_read := True, n_updatedAt := now \<rparr>
                    else db st ! i)"
    by (simp add: coll_def mark_def)
  have "length coll = length (db st)" by (simp add: coll_def)
  with first second nth show ?thesis by blast
qed

text \<open>
  On the sample state a bulk mark-read for \<open>u1\<close> and \<open>app1\<close> changes the unread chat
  message only and reports 1; the repeated call reports 0.
\<close>

theorem markAllRead_frame_witness:
  "patch_read_all_route 5 ''u1'' \<lparr> ra_type = Absent, ra_channel = Absent, ra_appId = Str ''app1'' \<rparr>
      sample_state
     = (Inr (200, \<lparr> ra_success = True, ra_modifiedCount = 1 \<rparr>),
        sample_state\<lparr> db := [sample_chat\<lparr> n_read := True, n_updatedAt := 5 \<rparr>,
                              sample_order, sample_no_app] \<rparr>) \<and>
   patch_read_all_route 6 ''u1'' \<lparr> ra_type = Absent, ra_channel = Absent, ra_appId = Str ''app1'' \<rparr>
      (sample_state\<lparr> db := [sample_chat\<lparr> n_read := True, n_updatedAt := 5 \<rparr>,
                              sample_order, sample_no_app] \<rparr>)
     = (Inr (200, \<lparr> ra_success = True, ra_modifiedCount = 0 \<rparr>),
        sample_state\<lparr> db := [sample_chat\<lparr> n_read := True, n_updatedAt := 5 \<rparr>,
                              sample_order, sample_no_app] \<rparr>)"
proof -
  have a: "ra_appId \<lparr> ra_type = Absent, ra_channel = Absent, ra_appId = Str ''app1'' \<rparr> = Str ''app1''"
    by simp
  have b: "''app1'' \<noteq> []" by simp
  from markAllRead_frame [OF a b, of 5 "''u1''" sample_state 6] obtain coll where
    1: "patch_read_all_route 5 ''u1'' \<lparr> ra_type = Absent, ra_channel = Absent, ra_appId = Str ''app1'' \<rparr>
          sample_state
        = (Inr (200, \<lparr> ra_success = True,
              ra_modifiedCount = length (filter (in_scope ''u1'' ''app1''
                 \<lparr> ra_type = Absent, ra_channel = Absent, ra_appId = Str ''app1'' \<rparr>) (db sample_state)) \<rparr>),
           sample_state\<lparr> db := coll \<rparr>)"
    and 2: "patch_read_all_route 6 ''u1'' \<lparr> ra_type = Absent, ra_channel = Absent, ra_appId = Str ''app1'' \<rparr>
          (sample_state\<lparr> db := coll \<rparr>)
        = (Inr (200, \<lparr> ra_success = True, ra_modifiedCount = 0 \<rparr>), sample_state\<lparr> db := coll \<rparr>)"
    by blast
  have 3: "patch_read_all_route 5 ''u1'' \<lparr> ra_type = Absent, ra_channel = Absent, ra_appId = Str ''app1'' \<rparr>
      sample_state
     = (Inr (200, \<lparr> ra_success = True, ra_modifiedCount = 1 \<rparr>),
        sample_state\<lparr> db := [sample_chat\<lparr> n_read := True, n_updatedAt := 5 \<rparr>,
                              sample_order, sample_no_app] \<rparr>)"
    by (simp add: patch_read_all_route_def updateMany_def matches_def mark_def sample_defs)
  from 1 3 have "coll = [sample_chat\<lparr> n_read := True, n_updatedAt := 5 \<rparr>, sample_order, sample_no_app]"
    by (simp add: sample_state_def)
  with 2 3 show ?thesis by simp
qed

section \<open>Persist, then push (C5)\<close>




section \<open>Listing by application (C6)\<close>

text \<open>
  C6: a listing with application id \<open>X\<close> returns only documents of that receiver whose
  stored application id is exactly \<open>X\<close>; a notification created with another application
  id, or with none, never appears in it, in whatever state the listing runs and however
  the notification has been marked since.
\<close>

theorem list_only_same_appId:
  assumes "q_appId q = Str X" and "get_route r q st = Inr (code, resp)"
  shows "(\<forall>n \<in> set (lr_notifications resp). n_receiverId n = r \<and> n_appId n = Some X) \<and>
         (\<forall>now oid b st0 c cresp st1 tr n'.
            post_route now oid b st0 = (Inr (c, cresp), st1, tr) \<and>
            stored_string None (b_appId b) \<noteq> Some X \<and>
            later_version (cr_notification cresp) n'
            \<longrightarrow> n' \<notin> set (lr_notifications resp))"
proof -
  from get_route_Inr [OF assms(2)] assms(1) have X: "X \<noteq> []" by auto
  from get_route_listed [OF assms(1) X assms(2)]
  have listed: "\<forall>n \<in> set (lr_notifications resp). n_receiverId n = r \<and> n_appId n = Some X"
    by auto
  have "n' \<notin> set (lr_notifications resp)"
    if p: "post_route now oid b st0 = (Inr (c, cresp), st1, tr)"
      and other: "stored_string None (b_appId b) \<noteq> Some X"
      and lv: "later_version (cr_notification cresp) n'"
    for now oid b st0 c cresp st1 tr n'
  proof -
    from post_route_ok [OF p] other have "n_appId (cr_notification cresp) \<noteq> Some X"
      by simp
    with later_version_fields [OF lv] have "n_appId n' \<noteq> Some X" by simp
    with listed show ?thesis by auto
  qed
  with listed show ?thesis by blast
qed

text \<open>
  Listing the sample state for \<open>u1\<close> and \<open>app1\<close>, type \<open>chat\<close>: the chat message
  of \<open>app1\<close> is returned, the one stored without an application is not.
\<close>

theorem list_only_same_appId_witness:
  "get_route ''u1'' \<lparr> q_unreadOnly = Absent, q_type = Str ''chat'', q_channel = Absent,
                      q_appId = Str ''app1'', q_limit = None, q_skip = None \<rparr> sample_state
     = Inr (200, \<lparr> lr_notifications = [sample_chat], lr_total = 2, lr_unreadCount = 1,
                    lr_isOnline = True \<rparr>) \<and>
   n_appId sample_chat = Some ''app1'' \<and>
   sample_no_app \<notin> set [sample_chat]"
proof -
  let ?q = "\<lparr> q_unreadOnly = Absent, q_type = Str ''chat'', q_channel = Absent,
              q_appId = Str ''app1'', q_limit = None, q_skip = None \<rparr>"
  have a: "q_appId ?q = Str ''app1''" by simp
  have g: "get_route ''u1'' ?q sample_state
     = Inr (200, \<lparr> lr_notifications = [sample_chat], lr_total = 2, lr_unreadCount = 1,
                    lr_isOnline = True \<rparr>)"
    by (simp add: get_route_def find_sorted_def countDocuments_def matches_def isReceiverOnline_def
                  map_has_def map_get_def Let_def sample_defs)
  from list_only_same_appId [OF a g]
  have "\<forall>n \<in> set [sample_chat]. n_receiverId n = ''u1'' \<and> n_appId n = Some ''app1''"
    by simp
  then have "n_appId sample_chat = Some ''app1''" by simp
  moreover have "sample_no_app \<notin> set [sample_chat]" by (simp add: sample_defs)
  ultimately show ?thesis using g by simp
qed

section \<open>The read flag (C7)\<close>

text \<open>
  C7: through any sequence of operations (creations, listings, mark-read, mark-all-read,
  socket events) a document that is read stays in the collection, keeps its identifier and
  stays read: the flag never goes from true to false. Marking an already-read notification
  succeeds with status 200 and returns the document with nothing but \<open>updatedAt\<close>
  changed, and the collection is the same up to \<open>updatedAt\<close> stamps.
\<close>

theorem read_never_reset:
  "(i < length (db st) \<and> n_read (db st ! i) \<longrightarrow>
      i < length (db (exec_ops st ops)) \<and>
      n_read (db (exec_ops st ops) ! i) \<and>
      n_id (db (exec_ops st ops) ! i) = n_id (db st ! i)) \<and>
   (find (\<lambda>n. n_id n = k) (db st) = Some n \<and> n_read n \<longrightarrow>
      fst (patch_read_route now k st)
        = Inr (200, \<lparr> rr_success = True, rr_notification = n\<lparr> n_updatedAt := now \<rparr> \<rparr>) \<and>
      map (\<lambda>m. m\<lparr> n_updatedAt := 0 \<rparr>) (db (snd (patch_read_route now k st)))
        = map (\<lambda>m. m\<lparr> n_updatedAt := 0 \<rparr>) (db st))"
proof (intro conjI impI)
  assume a: "i < length (db st) \<and> n_read (db st ! i)"
  then have i: "i < length (db st)" and rd: "n_read (db st ! i)" by simp_all
  from evolves_nth [OF evolves_exec_ops i, of ops]
  have len: "i < length (db (exec_ops st ops))"
    and lv: "later_version (db st ! i) (db (exec_ops st ops) ! i)" by simp_all
  from len show "i < length (db (exec_ops st ops))" .
  from later_version_fields [OF lv] rd show "n_read (db (exec_ops st ops) ! i)" by simp
  from later_version_fields [OF lv] show "n_id (db (exec_ops st ops) ! i) = n_id (db st ! i)"
    by simp
next
  assume a: "find (\<lambda>n. n_id n = k) (db st) = Some n \<and> n_read n"
  then have f: "find (\<lambda>n. n_id n = k) (db st) = Some n" and rd: "n_read n" by simp_all
  obtain res coll where p: "findByIdAndUpdate now k (db st) = (res, coll)"
    by (cases "findByIdAndUpdate now k (db st)")
  from findByIdAndUpdate_found [OF f, of now] p have res: "res = Some (mark now n)" by simp
  from findByIdAndUpdate_stamps [OF f rd, of now] p
  have coll: "map (\<lambda>m. m\<lparr> n_updatedAt := 0 \<rparr>) coll = map (\<lambda>m. m\<lparr> n_updatedAt := 0 \<rparr>) (db st)"
    by simp
  from p res rd show "fst (patch_read_route now k st)
        = Inr (200, \<lparr> rr_success = True, rr_notification = n\<lparr> n_updatedAt := now \<rparr> \<rparr>)"
    by (simp add: patch_read_route_def mark_read)
  from p res coll show "map (\<lambda>m. m\<lparr> n_updatedAt := 0 \<rparr>) (db (snd (patch_read_route now k st)))
        = map (\<lambda>m. m\<lparr> n_updatedAt := 0 \<rparr>) (db st)"
    by (simp add: patch_read_route_def)
qed

text \<open>
  The read order of the sample state stays read through a run of four operations, and
  marking it read again returns it with a new \<open>updatedAt\<close> only.
\<close>

theorem read_never_reset_witness:
  "n_read (db sample_state ! 1) \<and>
   n_read (db (exec_ops sample_state
      [OpMarkRead 5 1,
       OpMarkAllRead 6 ''u1'' \<lparr> ra_type = Absent, ra_channel = Absent, ra_appId = Str ''app1'' \<rparr>,
       OpCreate 7 3 sample_body,
       OpSocket (Disconnect ''s1'')]) ! 1) \<and>
   fst (patch_read_route 5 1 sample_state)
     = Inr (200, \<lparr> rr_success = True, rr_notification = sample_order\<lparr> n_updatedAt := 5 \<rparr> \<rparr>)"
proof -
  have i: "1 < length (db sample_state) \<and> n_read (db sample_state ! 1)"
    by (simp add: sample_defs)
  have f: "find (\<lambda>n. n_id n = 1) (db sample_state) = Some sample_order \<and> n_read sample_order"
    by (simp add: sample_defs)
  from read_never_reset [of 1 sample_state _ 1 sample_order 5] i f show ?thesis by blast
qed

section \<open>Validation of a creation (C8)\<close>




section \<open>Defaults of a creation (C9)\<close>

text \<open>
  C9: the notification a valid creation returns has \<open>read = false\<close>, channel \<open>default\<close>
  when the request has no channel, and the empty object as payload when the request has no
  payload. The code gives the first two, and it sets the payload of the document in memory
  to the empty object (the push carries it), but the schema minimizes what is stored and
  what the response prints: for the sample request, which has no payload, the notification
  of the 201 response and the stored document have no \<open>payload\<close> key at all.
\<close>

theorem create_drops_empty_payload:
  "b_payload \<lparr> b_receiverId = Some (JStr ''u1''), b_type = Some (JStr ''chat''),
                b_payload = None, b_appId = Some (JStr ''app1''), b_senderId = None,
                b_channel = None \<rparr> = None \<and>
   post_route 1 0 \<lparr> b_receiverId = Some (JStr ''u1''), b_type = Some (JStr ''chat''),
                    b_payload = None, b_appId = Some (JStr ''app1''), b_senderId = None,
                    b_channel = None \<rparr>
      \<lparr> db = [], io = True, activeConnections = [] \<rparr>
     = (Inr (201, \<lparr> cr_success = True,
            cr_notification = \<lparr> n_id = 0, n_receiverId = ''u1'', n_type = ''chat'',
               n_payload = None, n_read = False, n_appId = Some ''app1'', n_senderId = None,
               n_channel = Some ''default'', n_createdAt = 1, n_updatedAt = 1 \<rparr>,
            cr_delivered = True \<rparr>),
        \<lparr> db = [\<lparr> n_id = 0, n_receiverId = ''u1'', n_type = ''chat'',
               n_payload = None, n_read = False, n_appId = Some ''app1'', n_senderId = None,
               n_channel = Some ''default'', n_createdAt = 1, n_updatedAt = 1 \<rparr>],
          io = True, activeConnections = [] \<rparr>,
        [Persist \<lparr> n_id = 0, n_receiverId = ''u1'', n_type = ''chat'',
               n_payload = None, n_read = False, n_appId = Some ''app1'', n_senderId = None,
               n_channel = Some ''default'', n_createdAt = 1, n_updatedAt = 1 \<rparr>,
         Emit (JStr ''u1'') \<lparr> pe_id = 0, pe_type = ''chat'', pe_payload = JObj [],
               pe_channel = Some ''default'', pe_senderId = None, pe_createdAt = 1 \<rparr>,
         Respond 201])"
  by (simp add: post_route_def Notification_create_def required_string_def optional_string_def
                sendNotification_def Let_def)

text \<open>
  Read off the evaluation above: the request has no payload, the creation is answered
  with 201, and the notification of the response has no payload.
\<close>

theorem create_drops_empty_payload_witness:
  "\<exists>resp st' tr.
      post_route 1 0 \<lparr> b_receiverId = Some (JStr ''u1''), b_type = Some (JStr ''chat''),
                    b_payload = None, b_appId = Some (JStr ''app1''), b_senderId = None,
                    b_channel = None \<rparr>
        \<lparr> db = [], io = True, activeConnections = [] \<rparr> = (Inr (201, resp), st', tr) \<and>
      n_payload (cr_notification resp) = None \<and>
      n_read (cr_notification resp) = False \<and>
      n_channel (cr_notification resp) = Some ''default''"
proof -
  from create_drops_empty_payload
  have "post_route 1 0 \<lparr> b_receiverId = Some (JStr ''u1''), b_type = Some (JStr ''chat''),
                    b_payload = None, b_appId = Some (JStr ''app1''), b_senderId = None,
                    b_channel = None \<rparr>
      \<lparr> db = [], io = True, activeConnections = [] \<rparr>
     = (Inr (201, \<lparr> cr_success = True,
            cr_notification = \<lparr> n_id = 0, n_receiverId = ''u1'', n_type = ''chat'',
               n_payload = None, n_read = False, n_appId = Some ''app1'', n_senderId = None,
               n_channel = Some ''default'', n_createdAt = 1, n_updatedAt = 1 \<rparr>,
            cr_delivered = True \<rparr>),
        \<lparr> db = [\<lparr> n_id = 0, n_receiverId = ''u1'', n_type = ''chat'',
               n_payload = None, n_read = False, n_appId = Some ''app1'', n_senderId = None,
               n_channel = Some ''default'', n_createdAt = 1, n_updatedAt = 1 \<rparr>],
          io = True, activeConnections = [] \<rparr>,
        [Persist \<lparr> n_id = 0, n_receiverId = ''u1'', n_type = ''chat'',
               n_payload = None, n_read = False, n_appId = Some ''app1'', n_senderId = None,
               n_channel = Some ''default'', n_createdAt = 1, n_updatedAt = 1 \<rparr>,
         Emit (JStr ''u1'') \<lparr> pe_id = 0, pe_type = ''chat'', pe_payload = JObj [],
               pe_channel = Some ''default'', pe_senderId = None, pe_createdAt = 1 \<rparr>,
         Respond 201])"
    by blast
  then show ?thesis by simp
qed

section \<open>The counts of a listing (C10)\<close>

text \<open>
  C10: in a listing response \<open>total\<close> is the number of documents with the receiver and
  the application id, and \<open>unreadCount\<close> the number of those that are unread; neither
  depends on \<open>unreadOnly\<close>, \<open>type\<close>, \<open>channel\<close>, \<open>limit\<close> or \<open>skip\<close>. The
  filters restrict the notifications array only: each listed document passes them.
\<close>

theorem list_counts_ignore_filters:
  assumes "q_appId q = Str a" and "a \<noteq> []"
  shows "\<exists>ns. get_route r q st =
           Inr (200,
             \<lparr> lr_notifications = ns,
               lr_total = length (filter (\<lambda>n. n_receiverId n = r \<and> n_appId n = Some a) (db st)),
               lr_unreadCount =
                 length (filter (\<lambda>n. n_receiverId n = r \<and> n_appId n = Some a \<and> \<not> n_read n)
                           (db st)),
               lr_isOnline = isReceiverOnline (activeConnections st) r \<rparr>) \<and>
           set ns \<subseteq> {n \<in> set (db st). n_receiverId n = r \<and> n_appId n = Some a \<and>
                                      passes_filters q n}"
proof -
  let ?F = "add_channel (q_channel q) (add_type (q_type q)
              (if q_unreadOnly q = Str ''true''
               then \<lparr> f_receiverId = r, f_appId = a, f_read = None, f_type = None,
                      f_channel = None \<rparr> \<lparr> f_read := Some False \<rparr>
               else \<lparr> f_receiverId = r, f_appId = a, f_read = None, f_type = None,
                      f_channel = None \<rparr>))"
  let ?s = "case q_skip q of None \<Rightarrow> 0 | Some s \<Rightarrow> s"
  let ?l = "case q_limit q of None \<Rightarrow> 50 | Some l \<Rightarrow> l"
  have "set (find_sorted ?F ?s ?l (db st)) \<subseteq> {n \<in> set (db st). matches ?F n}"
    by (rule set_find_sorted_subset)
  then have "set (find_sorted ?F ?s ?l (db st))
      \<subseteq> {n \<in> set (db st). n_receiverId n = r \<and> n_appId n = Some a \<and> passes_filters q n}"
    unfolding matches_list_query .
  with get_route_ok [OF assms, of r st] show ?thesis by blast
qed

text \<open>
  On the sample state a listing for unread orders returns no notification and a listing
  without filters returns two; both report \<open>total = 2\<close> and \<open>unreadCount = 1\<close>.
\<close>

theorem list_counts_ignore_filters_witness:
  "get_route ''u1'' \<lparr> q_unreadOnly = Str ''true'', q_type = Str ''order'', q_channel = Absent,
                      q_appId = Str ''app1'', q_limit = None, q_skip = None \<rparr> sample_state
     = Inr (200, \<lparr> lr_notifications = [], lr_total = 2, lr_unreadCount = 1,
                    lr_isOnline = True \<rparr>) \<and>
   get_route ''u1'' \<lparr> q_unreadOnly = Absent, q_type = Absent, q_channel = Absent,
                      q_appId = Str ''app1'', q_limit = None, q_skip = None \<rparr> sample_state
     = Inr (200, \<lparr> lr_notifications = [sample_order, sample_chat], lr_total = 2,
                    lr_unreadCount = 1, lr_isOnline = True \<rparr>)"
proof -
  let ?q = "\<lparr> q_unreadOnly = Str ''true'', q_type = Str ''order'', q_channel = Absent,
              q_appId = Str ''app1'', q_limit = None, q_skip = None \<rparr>"
  have a: "q_appId ?q = Str ''app1''" and b: "''app1'' \<noteq> []" by simp_all
  from list_counts_ignore_filters [OF a b, of "''u1''" sample_state] obtain ns where
    g: "get_route ''u1'' ?q sample_state
          = Inr (200, \<lparr> lr_notifications = ns,
               lr_total = length (filter (\<lambda>n. n_receiverId n = ''u1'' \<and> n_appId n = Some ''app1'')
                                    (db sample_state)),
               lr_unreadCount =
                 length (filter (\<lambda>n. n_receiverId n = ''u1'' \<and> n_appId n = Some ''app1'' \<and> \<not> n_read n)
                           (db sample_state)),
               lr_isOnline = isReceiverOnline (activeConnections sample_state) ''u1'' \<rparr>)"
    and s: "set ns \<subseteq> {n \<in> set (db sample_state). n_receiverId n = ''u1'' \<and>
                       n_appId n = Some ''app1'' \<and> passes_filters ?q n}"
    by blast
  have "{n \<in> set (db sample_state). n_receiverId n = ''u1'' \<and>
                       n_appId n = Some ''app1'' \<and> passes_filters ?q n} = {}"
    by (auto simp: passes_filters_def sample_defs)
  with s have "ns = []" by simp
  with g have 1: "get_route ''u1'' ?q sample_state
     = Inr (200, \<lparr> lr_notifications = [], lr_total = 2, lr_unreadCount = 1,
                    lr_isOnline = True \<rparr>)"
    by (simp add: isReceiverOnline_def map_has_def map_get_def sample_defs)
  have 2: "get_route ''u1'' \<lparr> q_unreadOnly = Absent, q_type = Absent, q_channel = Absent,
                      q_appId = Str ''app1'', q_limit = None, q_skip = None \<rparr> sample_state
     = Inr (200, \<lparr> lr_notifications = [sample_order, sample_chat], lr_total = 2,
                    lr_unreadCount = 1, lr_isOnline = True \<rparr>)"
    by (simp add: get_route_def find_sorted_def countDocuments_def matches_def isReceiverOnline_def
                  map_has_def map_get_def Let_def sample_defs)
  from 1 2 show ?thesis by simp
qed

end
